theory Spec2Isabelle
  imports Complex_Main "HOL-Library.Word"
begin

section \<open>Errors and strings\<close>

text \<open>
  The source signals failure by throwing. The model returns \<open>error + 'a\<close> with the
  thrown value on the left: \<open>Error msg\<close> for \<^verbatim>\<open>throw new Error(msg)\<close>,
  \<open>TypeError\<close> for the exception JavaScript raises when a property is read from
  \<^verbatim>\<open>undefined\<close>, \<open>SyntaxError\<close> for the one \<^verbatim>\<open>BigInt(...)\<close> raises on text that is
  not an integer (the messages of the last two are the engine's, and are left out).

  Configuration strings (environment values, provider tags, model names, messages) are
  only ever compared with ASCII literals and concatenated; they are \<open>string\<close>. Text that
  is exchanged with a language model is a sequence of UTF-16 code units (\<open>jsstring\<close>),
  because \<^verbatim>\<open>trim()\<close> is defined on code units well beyond one byte.
\<close>

datatype error = Error string | TypeError | SyntaxError

definition bindE :: "error + 'a \<Rightarrow> ('a \<Rightarrow> error + 'b) \<Rightarrow> error + 'b" where
  "bindE m f = (case m of Inl e \<Rightarrow> Inl e | Inr x \<Rightarrow> f x)"

type_synonym jsstring = "16 word list"

definition lit :: "string \<Rightarrow> jsstring" where
  \<comment> \<open>an ASCII literal of the source as code units\<close>
  "lit s = map (\<lambda>c. of_nat (of_char c)) s"

section \<open>The configuration object\<close>

text \<open>
  The interfaces of \<^verbatim>\<open>configuration.ts\<close>, one record each (an anonymous nested object
  gets a record named after its field). A field name that several interfaces share is
  written qualified, \<open>AiConfiguration.enabled\<close>. The field \<^verbatim>\<open>smtp.from\<close> is \<open>smtpFrom\<close>
  here. TypeScript's \<^verbatim>\<open>number\<close> is the type parameter \<open>'n\<close>: the configuration only stores
  what \<^verbatim>\<open>parseInt\<close> and \<^verbatim>\<open>parseFloat\<close> return. \<^verbatim>\<open>bigint\<close> is \<open>int\<close>. The union types
  \<^verbatim>\<open>ServerMode\<close>, \<^verbatim>\<open>AccountVerificationType\<close> and \<^verbatim>\<open>AiProvider\<close> are \<open>string\<close>: the
  source fills them with unchecked casts of environment values.
\<close>

record ServerConfiguration =
  name :: string
  avatar :: string
  mode :: string

record 'n AccountConfiguration =
  verificationType :: string
  otpTimeout :: 'n
  allowGoogleLogin :: bool

record UserConfiguration =
  storageLimit :: int
  maxFileSize :: int

record PostgresSsl =
  rejectUnauthorized :: "bool option"
  ca :: "string option"
  key :: "string option"
  cert :: "string option"

record PostgresConfiguration =
  url :: string
  ssl :: PostgresSsl

record RedisJobs =
  prefix :: string
  name :: string

record 'n RedisConfiguration =
  url :: string
  db :: 'n
  jobs :: RedisJobs
  eventsChannel :: string

record S3Configuration =
  endpoint :: string
  accessKey :: string
  secretKey :: string
  bucketName :: string
  region :: string

record SmtpFrom =
  email :: string
  name :: string

record 'n SmtpConfiguration =
  host :: string
  port :: 'n
  user :: string
  password :: string
  smtpFrom :: SmtpFrom

record AiProviderConfiguration =
  apiKey :: string
  enabled :: "bool option"

record 'n AiModelConfiguration =
  provider :: string
  modelName :: string
  temperature :: 'n

record Providers =
  openai :: AiProviderConfiguration
  google :: AiProviderConfiguration

record Langfuse =
  enabled :: bool
  publicKey :: string
  secretKey :: string
  baseUrl :: string

record 'n Embedding =
  provider :: string
  apiKey :: string
  modelName :: string
  dimensions :: 'n
  batchSize :: 'n

record 'n ChunkingConfiguration =
  defaultChunkSize :: 'n
  defaultOverlap :: 'n
  enhanceWithContext :: bool

record 'n HybridSearch =
  semanticSearchWeight :: 'n
  keywordSearchWeight :: 'n
  maxResults :: 'n

record 'n RetrievalConfiguration =
  hybridSearch :: "'n HybridSearch"

record 'n DeepSearch =
  enabled :: bool
  maxIterations :: 'n

text \<open>
  The keys of \<^verbatim>\<open>configuration.ai.models\<close>. The object is read only as
  \<^verbatim>\<open>configuration.ai.models[task]\<close> with \<^verbatim>\<open>task\<close> one of its keys, so it is a function
  on the keys.
\<close>

datatype Task =
  queryRewrite | response | rerank | summarization | contextEnhancer | noContext
  | intentRecognition | databaseFilter | reasoning | deepPlanner | deepCritic | deepRerank

record 'n AiConfiguration =
  enabled :: bool
  nodeEmbeddingDelay :: 'n
  documentEmbeddingDelay :: 'n
  providers :: Providers
  langfuse :: Langfuse
  models :: "Task \<Rightarrow> 'n AiModelConfiguration"
  embedding :: "'n Embedding"
  chunking :: "'n ChunkingConfiguration"
  retrieval :: "'n RetrievalConfiguration"
  deepSearch :: "'n DeepSearch option"

record 'n Configuration =
  server :: ServerConfiguration
  account :: "'n AccountConfiguration"
  user :: UserConfiguration
  postgres :: PostgresConfiguration
  redis :: "'n RedisConfiguration"
  avatarS3 :: S3Configuration
  fileS3 :: S3Configuration
  smtp :: "'n SmtpConfiguration"
  ai :: "'n AiConfiguration"

subsection \<open>Reading the environment\<close>

text \<open>
  \<^verbatim>\<open>process.env\<close> is a map from names to strings. \<^verbatim>\<open>!value\<close> holds for a missing
  variable and for the empty string alike, and so does the left operand of
  \<^verbatim>\<open>getOptionalEnv(...) || d\<close>.
\<close>

type_synonym environment = "string \<rightharpoonup> string"

definition getRequiredEnv :: "environment \<Rightarrow> string \<Rightarrow> error + string" where
  "getRequiredEnv process_env env =
     (case process_env env of
        None \<Rightarrow> Inl (Error (env @ '' is not set''))
      | Some v \<Rightarrow> if v = [] then Inl (Error (env @ '' is not set'')) else Inr v)"

definition getOptionalEnv :: "environment \<Rightarrow> string \<Rightarrow> string option" where
  "getOptionalEnv process_env env = process_env env"

definition orElse :: "string option \<Rightarrow> string \<Rightarrow> string" where
  \<comment> \<open>\<^verbatim>\<open>v || d\<close> for an optional string \<open>v\<close>\<close>
  "orElse v d = (case v of None \<Rightarrow> d | Some s \<Rightarrow> if s = [] then d else s)"

definition modelEnv ::
  "(string \<Rightarrow> 'n) \<Rightarrow> environment \<Rightarrow> string \<Rightarrow> string \<Rightarrow> string \<Rightarrow> string \<Rightarrow> string \<Rightarrow> string
     \<Rightarrow> 'n AiModelConfiguration" where
  \<comment> \<open>the shape shared by the twelve entries of \<^verbatim>\<open>models\<close>\<close>
  "modelEnv parseFloat process_env providerVar providerDefault modelVar modelDefault
       temperatureVar temperatureDefault =
     \<lparr> AiModelConfiguration.provider = orElse (getOptionalEnv process_env providerVar) providerDefault,
       AiModelConfiguration.modelName = orElse (getOptionalEnv process_env modelVar) modelDefault,
       temperature = parseFloat (orElse (getOptionalEnv process_env temperatureVar) temperatureDefault) \<rparr>"

definition s3Env :: "environment \<Rightarrow> string \<Rightarrow> error + S3Configuration" where
  \<comment> \<open>the shape shared by \<^verbatim>\<open>avatarS3\<close> and \<^verbatim>\<open>fileS3\<close>; \<open>p\<close> is \<^verbatim>\<open>S3_AVATARS\<close> or \<^verbatim>\<open>S3_FILES\<close>\<close>
  "s3Env process_env p =
     bindE (getRequiredEnv process_env (p @ ''_ENDPOINT'')) (\<lambda>endpoint'.
     bindE (getRequiredEnv process_env (p @ ''_ACCESS_KEY'')) (\<lambda>accessKey'.
     bindE (getRequiredEnv process_env (p @ ''_SECRET_KEY'')) (\<lambda>secretKey'.
     bindE (getRequiredEnv process_env (p @ ''_BUCKET_NAME'')) (\<lambda>bucketName'.
     bindE (getRequiredEnv process_env (p @ ''_REGION'')) (\<lambda>region'.
     Inr \<lparr> endpoint = endpoint', accessKey = accessKey', S3Configuration.secretKey = secretKey',
           bucketName = bucketName', region = region' \<rparr>)))))"

definition bigIntE :: "(string \<Rightarrow> int option) \<Rightarrow> string \<Rightarrow> error + int" where
  \<comment> \<open>\<^verbatim>\<open>BigInt(s)\<close>: the integer, or a SyntaxError\<close>
  "bigIntE BigInt s = (case BigInt s of None \<Rightarrow> Inl SyntaxError | Some i \<Rightarrow> Inr i)"

definition aiConfiguration ::
  "(string \<Rightarrow> 'n) \<Rightarrow> (string \<Rightarrow> 'n) \<Rightarrow> environment \<Rightarrow> 'n AiConfiguration" where
  "aiConfiguration parseInt parseFloat process_env =
     \<lparr> AiConfiguration.enabled = (getOptionalEnv process_env ''AI_ENABLED'' = Some ''true''),
       nodeEmbeddingDelay =
         parseInt (orElse (getOptionalEnv process_env ''AI_NODE_EMBEDDING_DELAY'') ''5000''),
       documentEmbeddingDelay =
         parseInt (orElse (getOptionalEnv process_env ''AI_DOCUMENT_EMBEDDING_DELAY'') ''10000''),
       providers =
         \<lparr> openai =
             \<lparr> AiProviderConfiguration.apiKey = orElse (getOptionalEnv process_env ''OPENAI_API_KEY'') [],
               AiProviderConfiguration.enabled =
                 Some (getOptionalEnv process_env ''OPENAI_ENABLED'' = Some ''true'') \<rparr>,
           google =
             \<lparr> AiProviderConfiguration.apiKey = orElse (getOptionalEnv process_env ''GOOGLE_API_KEY'') [],
               AiProviderConfiguration.enabled =
                 Some (getOptionalEnv process_env ''GOOGLE_ENABLED'' = Some ''true'') \<rparr> \<rparr>,
       langfuse =
         \<lparr> Langfuse.enabled = (getOptionalEnv process_env ''LANGFUSE_ENABLED'' = Some ''true''),
           publicKey = orElse (getOptionalEnv process_env ''LANGFUSE_PUBLIC_KEY'') [],
           Langfuse.secretKey = orElse (getOptionalEnv process_env ''LANGFUSE_SECRET_KEY'') [],
           baseUrl = orElse (getOptionalEnv process_env ''LANGFUSE_BASE_URL'') ''https://cloud.langfuse.com'' \<rparr>,
       models = (\<lambda>task. case task of
           queryRewrite \<Rightarrow> modelEnv parseFloat process_env ''QUERY_REWRITE_PROVIDER'' ''openai''
             ''QUERY_REWRITE_MODEL'' ''gpt-4o-mini'' ''QUERY_REWRITE_TEMPERATURE'' ''0.3''
         | response \<Rightarrow> modelEnv parseFloat process_env ''RESPONSE_PROVIDER'' ''openai''
             ''RESPONSE_MODEL'' ''gpt-4o-mini'' ''RESPONSE_TEMPERATURE'' ''0.3''
         | rerank \<Rightarrow> modelEnv parseFloat process_env ''RERANK_PROVIDER'' ''openai''
             ''RERANK_MODEL'' ''gpt-4o-mini'' ''RERANK_TEMPERATURE'' ''0.1''
         | summarization \<Rightarrow> modelEnv parseFloat process_env ''SUMMARIZATION_PROVIDER'' ''openai''
             ''SUMMARIZATION_MODEL'' ''gpt-4o-mini'' ''SUMMARIZATION_TEMPERATURE'' ''0.2''
         | contextEnhancer \<Rightarrow> modelEnv parseFloat process_env ''CHUNK_CONTEXT_PROVIDER'' ''openai''
             ''CHUNK_CONTEXT_MODEL'' ''gpt-4o-mini'' ''CHUNK_CONTEXT_TEMPERATURE'' ''0.2''
         | noContext \<Rightarrow> modelEnv parseFloat process_env ''NO_CONTEXT_PROVIDER'' ''openai''
             ''NO_CONTEXT_MODEL'' ''gpt-4o-mini'' ''NO_CONTEXT_TEMPERATURE'' ''0.5''
         | intentRecognition \<Rightarrow> modelEnv parseFloat process_env ''INTENT_RECOGNITION_PROVIDER'' ''openai''
             ''INTENT_RECOGNITION_MODEL'' ''gpt-4o-mini'' ''INTENT_RECOGNITION_TEMPERATURE'' ''0.0''
         | databaseFilter \<Rightarrow> modelEnv parseFloat process_env ''DATABASE_FILTER_PROVIDER'' ''openai''
             ''DATABASE_FILTER_MODEL'' ''gpt-4o-mini'' ''DATABASE_FILTER_TEMPERATURE'' ''0.0''
         | reasoning \<Rightarrow> modelEnv parseFloat process_env ''REASONING_PROVIDER'' ''openai''
             ''REASONING_MODEL'' ''gpt-4o'' ''REASONING_TEMPERATURE'' ''0.3''
         | deepPlanner \<Rightarrow> modelEnv parseFloat process_env ''DEEP_PLANNER_PROVIDER'' ''openai''
             ''DEEP_PLANNER_MODEL'' ''o3'' ''DEEP_PLANNER_TEMPERATURE'' ''0.3''
         | deepCritic \<Rightarrow> modelEnv parseFloat process_env ''DEEP_CRITIC_PROVIDER'' ''openai''
             ''DEEP_CRITIC_MODEL'' ''o3'' ''DEEP_CRITIC_TEMPERATURE'' ''0.0''
         | deepRerank \<Rightarrow> modelEnv parseFloat process_env ''DEEP_RERANK_PROVIDER'' ''google''
             ''DEEP_RERANK_MODEL'' ''gemini-2.5-pro'' ''DEEP_RERANK_TEMPERATURE'' ''0.2''),
       embedding =
         \<lparr> Embedding.provider = orElse (getOptionalEnv process_env ''EMBEDDING_PROVIDER'') ''openai'',
           Embedding.apiKey = orElse (getOptionalEnv process_env ''EMBEDDING_API_KEY'') [],
           Embedding.modelName = orElse (getOptionalEnv process_env ''EMBEDDING_MODEL'') ''text-embedding-3-large'',
           dimensions = parseInt (orElse (getOptionalEnv process_env ''EMBEDDING_DIMENSIONS'') ''2000''),
           batchSize = parseInt (orElse (getOptionalEnv process_env ''EMBEDDING_BATCH_SIZE'') ''50'') \<rparr>,
       chunking =
         \<lparr> defaultChunkSize = parseInt (orElse (getOptionalEnv process_env ''CHUNK_DEFAULT_CHUNK_SIZE'') ''1000''),
           defaultOverlap = parseInt (orElse (getOptionalEnv process_env ''CHUNK_DEFAULT_OVERLAP'') ''200''),
           enhanceWithContext = (getOptionalEnv process_env ''CHUNK_ENHANCE_WITH_CONTEXT'' = Some ''true'') \<rparr>,
       retrieval =
         \<lparr> hybridSearch =
             \<lparr> semanticSearchWeight =
                 parseFloat (orElse (getOptionalEnv process_env ''RETRIEVAL_HYBRID_SEARCH_SEMANTIC_WEIGHT'') ''0.7''),
               keywordSearchWeight =
                 parseFloat (orElse (getOptionalEnv process_env ''RETRIEVAL_HYBRID_SEARCH_KEYWORD_WEIGHT'') ''0.3''),
               maxResults =
                 parseInt (orElse (getOptionalEnv process_env ''RETRIEVAL_HYBRID_SEARCH_MAX_RESULTS'') ''20'') \<rparr> \<rparr>,
       deepSearch = Some
         \<lparr> DeepSearch.enabled = (getOptionalEnv process_env ''DEEP_SEARCH_ENABLED'' = Some ''true''),
           maxIterations = parseInt (orElse (getOptionalEnv process_env ''DEEP_SEARCH_MAX_ITERATIONS'') ''3'') \<rparr> \<rparr>"

text \<open>
  The object literal is evaluated top to bottom, so the first failing
  \<^verbatim>\<open>getRequiredEnv\<close> or \<^verbatim>\<open>BigInt\<close> decides the exception and no configuration exists.
  The builtins \<^verbatim>\<open>parseInt\<close>, \<^verbatim>\<open>parseFloat\<close> (total: they return NaN rather than throw)
  and \<^verbatim>\<open>BigInt\<close> are parameters.
\<close>

definition configuration ::
  "(string \<Rightarrow> 'n) \<Rightarrow> (string \<Rightarrow> 'n) \<Rightarrow> (string \<Rightarrow> int option) \<Rightarrow> environment
     \<Rightarrow> error + 'n Configuration" where
  "configuration parseInt parseFloat BigInt process_env =
     bindE (getRequiredEnv process_env ''SERVER_NAME'') (\<lambda>serverName.
     bindE (bigIntE BigInt (orElse (getOptionalEnv process_env ''USER_STORAGE_LIMIT'') ''10737418240'')) (\<lambda>storageLimit'.
     bindE (bigIntE BigInt (orElse (getOptionalEnv process_env ''USER_MAX_FILE_SIZE'') ''104857600'')) (\<lambda>maxFileSize'.
     bindE (getRequiredEnv process_env ''POSTGRES_URL'') (\<lambda>postgresUrl.
     bindE (getRequiredEnv process_env ''REDIS_URL'') (\<lambda>redisUrl.
     bindE (s3Env process_env ''S3_AVATARS'') (\<lambda>avatarS3'.
     bindE (s3Env process_env ''S3_FILES'') (\<lambda>fileS3'.
     bindE (getRequiredEnv process_env ''SMTP_EMAIL_FROM'') (\<lambda>fromEmail.
     bindE (getRequiredEnv process_env ''SMTP_EMAIL_FROM_NAME'') (\<lambda>fromName.
     Inr \<lparr> server =
             \<lparr> ServerConfiguration.name = serverName,
               avatar = orElse (getOptionalEnv process_env ''SERVER_AVATAR'') [],
               mode = orElse (getOptionalEnv process_env ''SERVER_MODE'') ''standalone'' \<rparr>,
           account =
             \<lparr> verificationType = orElse (getOptionalEnv process_env ''ACCOUNT_VERIFICATION_TYPE'') ''manual'',
               otpTimeout = parseInt (orElse (getOptionalEnv process_env ''ACCOUNT_OTP_TIMEOUT'') ''600''),
               allowGoogleLogin = (getOptionalEnv process_env ''ACCOUNT_ALLOW_GOOGLE_LOGIN'' = Some ''true'') \<rparr>,
           Configuration.user = \<lparr> storageLimit = storageLimit', maxFileSize = maxFileSize' \<rparr>,
           postgres =
             \<lparr> PostgresConfiguration.url = postgresUrl,
               ssl =
                 \<lparr> rejectUnauthorized =
                     (if getOptionalEnv process_env ''POSTGRES_SSL_REJECT_UNAUTHORIZED'' = None then None
                      else Some (getOptionalEnv process_env ''POSTGRES_SSL_REJECT_UNAUTHORIZED'' = Some ''true'')),
                   ca = getOptionalEnv process_env ''POSTGRES_SSL_CA'',
                   key = getOptionalEnv process_env ''POSTGRES_SSL_KEY'',
                   cert = getOptionalEnv process_env ''POSTGRES_SSL_CERT'' \<rparr> \<rparr>,
           redis =
             \<lparr> RedisConfiguration.url = redisUrl,
               db = parseInt (orElse (getOptionalEnv process_env ''REDIS_DB'') ''0''),
               jobs =
                 \<lparr> prefix = orElse (getOptionalEnv process_env ''REDIS_JOBS_QUEUE_PREFIX'') ''colanode'',
                   RedisJobs.name = orElse (getOptionalEnv process_env ''REDIS_JOBS_QUEUE_NAME'') ''jobs'' \<rparr>,
               eventsChannel = orElse (getOptionalEnv process_env ''REDIS_EVENTS_CHANNEL'') ''events'' \<rparr>,
           avatarS3 = avatarS3',
           fileS3 = fileS3',
           smtp =
             \<lparr> host = orElse (getOptionalEnv process_env ''SMTP_HOST'') [],
               port = parseInt (orElse (getOptionalEnv process_env ''SMTP_PORT'') ''587''),
               SmtpConfiguration.user = orElse (getOptionalEnv process_env ''SMTP_USER'') [],
               password = orElse (getOptionalEnv process_env ''SMTP_PASSWORD'') [],
               smtpFrom = \<lparr> email = fromEmail, SmtpFrom.name = fromName \<rparr> \<rparr>,
           ai = aiConfiguration parseInt parseFloat process_env \<rparr>)))))))))"

section \<open>Model resolution\<close>

text \<open>
  \<^verbatim>\<open>configuration.ai.providers[modelConfig.provider]\<close> is a property read on an object
  literal with the two own properties \<^verbatim>\<open>openai\<close> and \<^verbatim>\<open>google\<close>, and the tag is whatever
  string the environment gave. JavaScript answers with the own property, or with a member
  inherited from \<^verbatim>\<open>Object.prototype\<close> (none of which has a property \<^verbatim>\<open>enabled\<close>), or
  with \<^verbatim>\<open>undefined\<close>.
\<close>

datatype 'a property = Own 'a | Inherited | Undefined

definition objectPrototypeKeys :: "string list" where
  "objectPrototypeKeys =
     [''constructor'', ''__defineGetter__'', ''__defineSetter__'', ''hasOwnProperty'',
      ''__lookupGetter__'', ''__lookupSetter__'', ''isPrototypeOf'', ''propertyIsEnumerable'',
      ''toString'', ''valueOf'', ''__proto__'', ''toLocaleString'']"

definition providerProperty :: "Providers \<Rightarrow> string \<Rightarrow> AiProviderConfiguration property" where
  "providerProperty ps tag =
     (if tag = ''openai'' then Own (openai ps)
      else if tag = ''google'' then Own (google ps)
      else if tag \<in> set objectPrototypeKeys then Inherited
      else Undefined)"

text \<open>
  A model client records the options object its constructor was given: model name,
  temperature (absent when the option is not passed) and API key. What the client
  libraries do with the options is outside the repository.
\<close>

datatype 'n ChatModel =
  ChatOpenAI string "'n option" string
  | ChatGoogleGenerativeAI string "'n option" string

fun handleTemperature :: "'n ChatModel \<Rightarrow> 'n option" where
  "handleTemperature (ChatOpenAI m t k) = t"
| "handleTemperature (ChatGoogleGenerativeAI m t k) = t"

definition getChatModel :: "'n Configuration \<Rightarrow> Task \<Rightarrow> bool \<Rightarrow> error + 'n ChatModel" where
  "getChatModel configuration' task reasoningModel =
     (let modelConfig = models (ai configuration') task in
      if \<not> AiConfiguration.enabled (ai configuration') then Inl (Error ''AI is disabled.'')
      else
        case providerProperty (providers (ai configuration')) (AiModelConfiguration.provider modelConfig) of
          Undefined \<Rightarrow> Inl TypeError
        | Inherited \<Rightarrow> Inl (Error (AiModelConfiguration.provider modelConfig @ '' provider is disabled.''))
        | Own providerConfig \<Rightarrow>
            if AiProviderConfiguration.enabled providerConfig \<noteq> Some True
            then Inl (Error (AiModelConfiguration.provider modelConfig @ '' provider is disabled.''))
            else if AiModelConfiguration.provider modelConfig = ''openai'' then
              (if reasoningModel
               then Inr (ChatOpenAI (AiModelConfiguration.modelName modelConfig) None
                          (AiProviderConfiguration.apiKey providerConfig))
               else Inr (ChatOpenAI (AiModelConfiguration.modelName modelConfig)
                          (Some (temperature modelConfig))
                          (AiProviderConfiguration.apiKey providerConfig)))
            else if AiModelConfiguration.provider modelConfig = ''google'' then
              Inr (ChatGoogleGenerativeAI (AiModelConfiguration.modelName modelConfig)
                    (Some (temperature modelConfig))
                    (AiProviderConfiguration.apiKey providerConfig))
            else Inl (Error (''Unsupported AI provider: '' @ AiModelConfiguration.provider modelConfig)))"

section \<open>Calls to the model provider\<close>

text \<open>
  Every exported operation builds a chain \<^verbatim>\<open>prompt.pipe(model)...\<close> and invokes it once.
  The prompt templates and the output schemas are imported constants whose text is not
  part of \<^verbatim>\<open>configuration.ts\<close>; a call is recorded by their names, the client it goes to
  and the input object it is invoked with (keys in the order the source writes them).
  The provider's answer is a parameter \<open>llm\<close> of each operation: any function from the
  call to an error (transport failure, output that does not fit the schema) or a value.
  An operation returns its result together with the list of calls it made.
\<close>

datatype Prompt =
  queryRewritePrompt | summarizationPrompt | rerankPrompt | answerPrompt
  | intentRecognitionPrompt | noContextPrompt | databaseFilterPrompt
  | chunkSummarizationPrompt | evaluateAndRefinePrompt

datatype Output =
  StringOutputParser
  | rerankedDocumentsSchema | citedAnswerSchema | databaseFilterSchema
  | rewrittenQuerySchema | evaluateAndRefineSchema

record 'n Invocation =
  prompt :: Prompt
  model :: "'n ChatModel"
  outputAs :: Output
  inputs :: "(string \<times> jsstring) list"

subsection \<open>Text\<close>

definition isWhiteSpace :: "16 word \<Rightarrow> bool" where
  \<comment> \<open>ECMAScript WhiteSpace and LineTerminator, what \<^verbatim>\<open>trim()\<close> strips\<close>
  "isWhiteSpace c \<longleftrightarrow>
     c \<in> set [0x0009, 0x000A, 0x000B, 0x000C, 0x000D, 0x0020, 0x00A0, 0x1680,
               0x2028, 0x2029, 0x202F, 0x205F, 0x3000, 0xFEFF]
     \<or> (0x2000 \<le> c \<and> c \<le> 0x200A)"

definition trim :: "jsstring \<Rightarrow> jsstring" where
  "trim s = rev (dropWhile isWhiteSpace (rev (dropWhile isWhiteSpace s)))"

fun digits :: "nat \<Rightarrow> jsstring" where
  \<comment> \<open>\<^verbatim>\<open>`${idx}`\<close> for an array index\<close>
  "digits n = (if n < 10 then [of_nat (48 + n)] else digits (n div 10) @ [of_nat (48 + n mod 10)])"

fun join :: "jsstring \<Rightarrow> jsstring list \<Rightarrow> jsstring" where
  "join sep [] = []"
| "join sep [x] = x"
| "join sep (x # y # ys) = x @ sep @ join sep (y # ys)"

subsection \<open>Types of the pipeline\<close>

text \<open>
  The types imported from \<^verbatim>\<open>@langchain/core\<close>, \<^verbatim>\<open>@/types/llm\<close> and
  \<^verbatim>\<open>@/types/assistant\<close>, with the fields the source reads or declares in its return
  types. A document's \<^verbatim>\<open>metadata.type\<close> and \<^verbatim>\<open>metadata.id\<close> are \<open>metadata_type\<close> and
  \<open>metadata_id\<close>, taken to be strings. \<open>keywordQuery\<close>, \<open>refinedQuery\<close> and
  \<open>identifiedGaps\<close> are the fields section 3 of the specification gives these types; the
  source reads none of them. A ranking's \<^verbatim>\<open>index\<close> is an \<open>int\<close>.
\<close>

record Document =
  pageContent :: jsstring
  metadata_type :: jsstring
  metadata_id :: jsstring

record RewrittenQuery =
  semanticQuery :: jsstring
  keywordQuery :: jsstring

record AssistantChainState =
  mode :: string
  contextDocuments :: "Document list"
  rewrittenQuery :: RewrittenQuery

record 'n RankingEntry =
  index :: int
  score :: 'n
  type :: jsstring
  sourceId :: jsstring

record 'n RerankedDocuments =
  rankings :: "'n RankingEntry list"

record Citation =
  sourceId :: jsstring
  quote :: jsstring

record CitedAnswer =
  answer :: jsstring
  citations :: "Citation list"

record EvaluateAndRefineResult =
  sufficient :: bool
  refinedQuery :: "RewrittenQuery option"
  identifiedGaps :: "jsstring list"

record PromptArgs =
  currentTimestamp :: jsstring
  workspaceName :: jsstring
  userName :: jsstring
  userEmail :: jsstring
  formattedChatHistory :: jsstring
  formattedMessages :: jsstring
  formattedDocuments :: jsstring
  question :: jsstring

record EvaluateArgs =
  query :: jsstring
  sources :: jsstring
  chatHistory :: jsstring

datatype Intent = retrieve | no_context

subsection \<open>The operations\<close>

definition invoke ::
  "('n Invocation \<Rightarrow> error + 'r) \<Rightarrow> 'n Invocation \<Rightarrow> (error + 'r) \<times> 'n Invocation list" where
  \<comment> \<open>\<^verbatim>\<open>await chain.invoke(inputs)\<close>: the answer, and the call on the record\<close>
  "invoke llm call = (llm call, [call])"

definition formattedContext :: "Document list \<Rightarrow> jsstring" where
  "formattedContext docs =
     join [0x000A]
       (map (\<lambda>(idx, doc).
               digits idx @ lit ''. Type: '' @ metadata_type doc @ lit '', Content: ''
               @ pageContent doc @ lit '', ID: '' @ metadata_id doc @ [0x000A])
            (enumerate 0 docs))"

definition rerankDocuments ::
  "'n Configuration \<Rightarrow> ('n Invocation \<Rightarrow> error + 's RerankedDocuments) \<Rightarrow> AssistantChainState
     \<Rightarrow> (error + 's RankingEntry list) \<times> 'n Invocation list" where
  "rerankDocuments configuration' llm state =
     (let task = (if AssistantChainState.mode state = ''deep_search'' then deepRerank else rerank) in
      case getChatModel configuration' task (AssistantChainState.mode state = ''deep_search'') of
        Inl e \<Rightarrow> (Inl e, [])
      | Inr model' \<Rightarrow>
          let query' = semanticQuery (rewrittenQuery state);
              (result, calls) =
                invoke llm \<lparr> prompt = rerankPrompt, model = model', outputAs = rerankedDocumentsSchema,
                  inputs = [(''query'', query'),
                            (''context'', formattedContext (contextDocuments state))] \<rparr>
          in (case result of Inl e \<Rightarrow> (Inl e, calls) | Inr r \<Rightarrow> (Inr (rankings r), calls)))"

definition promptInputs :: "PromptArgs \<Rightarrow> (string \<times> jsstring) list" where
  "promptInputs a =
     [(''currentTimestamp'', currentTimestamp a), (''workspaceName'', workspaceName a),
      (''userName'', userName a), (''userEmail'', userEmail a),
      (''formattedChatHistory'', formattedChatHistory a),
      (''formattedMessages'', formattedMessages a),
      (''formattedDocuments'', formattedDocuments a), (''question'', question a)]"

definition generateFinalAnswer ::
  "'n Configuration \<Rightarrow> ('n Invocation \<Rightarrow> error + CitedAnswer) \<Rightarrow> PromptArgs
     \<Rightarrow> (error + CitedAnswer) \<times> 'n Invocation list" where
  "generateFinalAnswer configuration' llm promptArgs =
     (case getChatModel configuration' response False of
        Inl e \<Rightarrow> (Inl e, [])
      | Inr model' \<Rightarrow>
          invoke llm \<lparr> prompt = answerPrompt, model = model', outputAs = citedAnswerSchema,
            inputs = promptInputs promptArgs \<rparr>)"

definition assessUserIntent ::
  "'n Configuration \<Rightarrow> (jsstring \<Rightarrow> jsstring) \<Rightarrow> ('n Invocation \<Rightarrow> error + jsstring)
     \<Rightarrow> jsstring \<Rightarrow> jsstring \<Rightarrow> (error + Intent) \<times> 'n Invocation list" where
  \<comment> \<open>\<open>toLowerCase\<close> is the builtin \<^verbatim>\<open>String.prototype.toLowerCase\<close>\<close>
  "assessUserIntent configuration' toLowerCase llm query' chatHistory' =
     (case getChatModel configuration' intentRecognition False of
        Inl e \<Rightarrow> (Inl e, [])
      | Inr model' \<Rightarrow>
          let (result, calls) =
                invoke llm \<lparr> prompt = intentRecognitionPrompt, model = model',
                  outputAs = StringOutputParser,
                  inputs = [(''question'', query'), (''formattedChatHistory'', chatHistory')] \<rparr>
          in (case result of
                Inl e \<Rightarrow> (Inl e, calls)
              | Inr r \<Rightarrow>
                  (Inr (if toLowerCase (trim r) = lit ''no_context'' then no_context else retrieve),
                   calls)))"

definition evaluateAndRefine ::
  "'n Configuration \<Rightarrow> ('n Invocation \<Rightarrow> error + EvaluateAndRefineResult) \<Rightarrow> EvaluateArgs
     \<Rightarrow> (error + EvaluateAndRefineResult) \<times> 'n Invocation list" where
  "evaluateAndRefine configuration' llm args =
     (case getChatModel configuration' deepPlanner True of
        Inl e \<Rightarrow> (Inl e, [])
      | Inr model' \<Rightarrow>
          invoke llm \<lparr> prompt = evaluateAndRefinePrompt, model = model',
            outputAs = evaluateAndRefineSchema,
            inputs = [(''query'', query args), (''sources'', sources args),
                      (''chatHistory'', chatHistory args)] \<rparr>)"

definition toLowerCaseAscii :: "jsstring \<Rightarrow> jsstring" where
  \<comment> \<open>what \<^verbatim>\<open>toLowerCase()\<close> does to a string of ASCII code units\<close>
  "toLowerCaseAscii s = map (\<lambda>c. if 0x0041 \<le> c \<and> c \<le> 0x005A then c + 0x0020 else c) s"

section \<open>The deep-search controller\<close>

text \<open>
  Modelled from the spec: the Deep-Search Controller that drives \<^verbatim>\<open>evaluateAndRefine\<close> and
  \<^verbatim>\<open>rerankDocuments\<close> is not in \<^verbatim>\<open>configuration.ts\<close>. The definitions of this section
  follow section 4.6 of the specification, state by state. The two operations it calls
  are the source's, as embedded above, and the limit it tests is the configured
  \<^verbatim>\<open>configuration.ai.deepSearch.maxIterations\<close>.

  The collaborators are parameters. Each is indexed by the number of the pass it serves,
  so that the same request may be answered differently from one pass to the next:
  \<open>searchIndex k\<close> is the external retrieval of pass \<open>k\<close>, \<open>rankingModel k\<close> and
  \<open>planningModel k\<close> are the provider's answers to the reranking and to the evaluation
  of pass \<open>k\<close>, \<open>formatSources\<close> renders the accumulated ranking as the text handed to
  the evaluation. An exception of a collaborator or of model resolution ends the run
  (section 7: surfaced to the caller, no retry).

  The controller compares its iteration counter with the configured \<^verbatim>\<open>maxIterations\<close>,
  so the numbers of its configuration are real numbers. NaN, which \<^verbatim>\<open>parseInt\<close> returns
  for text without leading digits, is not among them. Without a \<^verbatim>\<open>deepSearch\<close> entry in
  the configuration there is no limit to reach.

  The iteration counter numbers the passes from 1, as section 8 does ("iterations 1 and
  2", "iteration 3"); \<open>passes\<close> counts the entries into \<open>RETRIEVE\<close> that were acted on, and
  \<open>evaluations\<close> lists the answers received from the evaluations, oldest first.
\<close>

datatype Phase = RETRIEVE | EVALUATE | REFINE | DONE

record 's PipelineRun =
  phase :: Phase
  activeQuery :: RewrittenQuery
  queryHistory :: "RewrittenQuery list"
  accumulated :: "'s RankingEntry list"
  iteration :: nat
  evaluations :: "EvaluateAndRefineResult list"
  passes :: nat

record 's Collaborators =
  settings :: "real Configuration"
  searchIndex :: "nat \<Rightarrow> RewrittenQuery \<Rightarrow> error + Document list"
  rankingModel :: "nat \<Rightarrow> real Invocation \<Rightarrow> error + 's RerankedDocuments"
  planningModel :: "nat \<Rightarrow> real Invocation \<Rightarrow> error + EvaluateAndRefineResult"
  formatSources :: "'s RankingEntry list \<Rightarrow> jsstring"
  userQuestion :: jsstring
  history :: jsstring

definition reachedLimit :: "'s Collaborators \<Rightarrow> nat \<Rightarrow> bool" where
  \<comment> \<open>Modelled from the spec: "iteration counter has reached maxIterations", the limit
      being \<^verbatim>\<open>configuration.ai.deepSearch.maxIterations\<close>\<close>
  "reachedLimit env i =
     (case deepSearch (ai (settings env)) of
        None \<Rightarrow> False
      | Some d \<Rightarrow> maxIterations d \<le> real i)"

definition initialRun :: "RewrittenQuery \<Rightarrow> 's PipelineRun" where
  \<comment> \<open>Modelled from the spec: "Initial: RETRIEVE with the turn's first RewrittenQuery"\<close>
  "initialRun q =
     \<lparr> phase = RETRIEVE, activeQuery = q, queryHistory = [q], accumulated = [],
       iteration = 1, evaluations = [], passes = 0 \<rparr>"

definition retrievePass :: "'s Collaborators \<Rightarrow> 's PipelineRun \<Rightarrow> error option \<times> 's PipelineRun" where
  \<comment> \<open>Modelled from the spec: RETRIEVE to EVALUATE, the new ranked batch is appended\<close>
  "retrievePass env s =
     (let k = Suc (passes s); s' = s\<lparr> passes := k \<rparr> in
      case searchIndex env k (activeQuery s) of
        Inl e \<Rightarrow> (Some e, s')
      | Inr docs \<Rightarrow>
          (case fst (rerankDocuments (settings env) (rankingModel env k)
                      \<lparr> mode = ''deep_search'', contextDocuments = docs,
                        rewrittenQuery = activeQuery s \<rparr>) of
             Inl e \<Rightarrow> (Some e, s')
           | Inr batch \<Rightarrow> (None, s'\<lparr> accumulated := accumulated s @ batch, phase := EVALUATE \<rparr>)))"

definition evaluatePass :: "'s Collaborators \<Rightarrow> 's PipelineRun \<Rightarrow> error option \<times> 's PipelineRun" where
  \<comment> \<open>Modelled from the spec: EVALUATE stops when the evidence is sufficient, when the
      iteration counter has reached \<^verbatim>\<open>maxIterations\<close>, or when no refined query came back\<close>
  "evaluatePass env s =
     (case fst (evaluateAndRefine (settings env) (planningModel env (passes s))
                 \<lparr> query = userQuestion env, sources = formatSources env (accumulated s),
                   chatHistory = history env \<rparr>) of
        Inl e \<Rightarrow> (Some e, s)
      | Inr r \<Rightarrow>
          if sufficient r \<or> reachedLimit env (iteration s) \<or> refinedQuery r = None
          then (None, s\<lparr> evaluations := evaluations s @ [r], phase := DONE \<rparr>)
          else (None, s\<lparr> evaluations := evaluations s @ [r], phase := REFINE \<rparr>))"

definition refinePass :: "'s PipelineRun \<Rightarrow> error option \<times> 's PipelineRun" where
  \<comment> \<open>Modelled from the spec: REFINE to RETRIEVE adopts the refined query of the last
      evaluation and increments the iteration counter; without a refined query to adopt
      the run stops\<close>
  "refinePass s =
     (case evaluations s of
        [] \<Rightarrow> (None, s\<lparr> phase := DONE \<rparr>)
      | r # rs \<Rightarrow>
          (case refinedQuery (last (r # rs)) of
             None \<Rightarrow> (None, s\<lparr> phase := DONE \<rparr>)
           | Some q \<Rightarrow>
               (None, s\<lparr> activeQuery := q, queryHistory := queryHistory s @ [q],
                        iteration := Suc (iteration s), phase := RETRIEVE \<rparr>)))"

definition step :: "'s Collaborators \<Rightarrow> 's PipelineRun \<Rightarrow> error option \<times> 's PipelineRun" where
  \<comment> \<open>Modelled from the spec: one transition of the state machine\<close>
  "step env s =
     (case phase s of
        RETRIEVE \<Rightarrow> retrievePass env s
      | EVALUATE \<Rightarrow> evaluatePass env s
      | REFINE \<Rightarrow> refinePass s
      | DONE \<Rightarrow> (None, s))"

partial_function (option) deepSearchController ::
  "'s Collaborators \<Rightarrow> 's PipelineRun \<Rightarrow> (error option \<times> 's PipelineRun) option" where
  "deepSearchController env s =
     (if phase s = DONE then Some (None, s)
      else case step env s of
             (Some e, s') \<Rightarrow> Some (Some e, s')
           | (None, s') \<Rightarrow> deepSearchController env s')"





section \<open>Example inputs\<close>

definition exampleModel :: "string \<Rightarrow> string \<Rightarrow> real \<Rightarrow> real AiModelConfiguration" where
  "exampleModel p m t =
     \<lparr> AiModelConfiguration.provider = p, AiModelConfiguration.modelName = m, temperature = t \<rparr>"

definition exampleAi :: "real AiConfiguration" where
  "exampleAi =
     \<lparr> AiConfiguration.enabled = True,
       nodeEmbeddingDelay = 5000,
       documentEmbeddingDelay = 10000,
       providers =
         \<lparr> openai = \<lparr> AiProviderConfiguration.apiKey = ''sk-openai'',
                      AiProviderConfiguration.enabled = Some True \<rparr>,
           google = \<lparr> AiProviderConfiguration.apiKey = ''g-key'',
                      AiProviderConfiguration.enabled = Some True \<rparr> \<rparr>,
       langfuse = \<lparr> Langfuse.enabled = False, publicKey = [], Langfuse.secretKey = [],
                    baseUrl = ''https://cloud.langfuse.com'' \<rparr>,
       models = (\<lambda>task. case task of
           deepRerank \<Rightarrow> exampleModel ''google'' ''gemini-2.5-pro'' (2 / 10)
         | deepPlanner \<Rightarrow> exampleModel ''openai'' ''o3'' (3 / 10)
         | deepCritic \<Rightarrow> exampleModel ''openai'' ''o3'' 0
         | _ \<Rightarrow> exampleModel ''openai'' ''gpt-4o-mini'' (3 / 10)),
       embedding = \<lparr> Embedding.provider = ''openai'', Embedding.apiKey = [],
                     Embedding.modelName = ''text-embedding-3-large'', dimensions = 2000,
                     batchSize = 50 \<rparr>,
       chunking = \<lparr> defaultChunkSize = 1000, defaultOverlap = 200, enhanceWithContext = False \<rparr>,
       retrieval = \<lparr> hybridSearch = \<lparr> semanticSearchWeight = 7 / 10, keywordSearchWeight = 3 / 10,
                                       maxResults = 2 \<rparr> \<rparr>,
       deepSearch = Some \<lparr> DeepSearch.enabled = True, maxIterations = 3 \<rparr> \<rparr>"

definition exampleS3 :: S3Configuration where
  "exampleS3 =
     \<lparr> endpoint = ''http://minio:9000'', accessKey = ''minioadmin'',
       S3Configuration.secretKey = ''secret'', bucketName = ''colanode'', region = ''us-east-1'' \<rparr>"

definition exampleConfiguration :: "real Configuration" where
  \<comment> \<open>AI on, both providers on, \<^verbatim>\<open>deepRerank\<close> bound to google, \<^verbatim>\<open>maxResults\<close> 2\<close>
  "exampleConfiguration =
     \<lparr> server = \<lparr> ServerConfiguration.name = ''Colanode'', avatar = [], mode = ''standalone'' \<rparr>,
       account = \<lparr> verificationType = ''manual'', otpTimeout = 600, allowGoogleLogin = False \<rparr>,
       Configuration.user = \<lparr> storageLimit = 10737418240, maxFileSize = 104857600 \<rparr>,
       postgres = \<lparr> PostgresConfiguration.url = ''postgres://db'',
                    ssl = \<lparr> rejectUnauthorized = None, ca = None, key = None, cert = None \<rparr> \<rparr>,
       redis = \<lparr> RedisConfiguration.url = ''redis://cache'', db = 0,
                 jobs = \<lparr> prefix = ''colanode'', RedisJobs.name = ''jobs'' \<rparr>,
                 eventsChannel = ''events'' \<rparr>,
       avatarS3 = exampleS3,
       fileS3 = exampleS3,
       smtp = \<lparr> host = [], port = 587, SmtpConfiguration.user = [], password = [],
                smtpFrom = \<lparr> email = ''noreply@example.com'', SmtpFrom.name = ''Colanode'' \<rparr> \<rparr>,
       ai = exampleAi \<rparr>"

definition withModels ::
  "real Configuration \<Rightarrow> (Task \<Rightarrow> real AiModelConfiguration) \<Rightarrow> real Configuration" where
  "withModels c ms = c\<lparr> ai := (ai c)\<lparr> models := ms \<rparr> \<rparr>"

definition aiSwitchedOff :: "real Configuration" where
  \<comment> \<open>AI off, and every task bound to a provider tag the configuration does not know\<close>
  "aiSwitchedOff =
     (withModels exampleConfiguration (\<lambda>task. exampleModel ''anthropic'' ''claude'' 0))
       \<lparr> ai := (ai (withModels exampleConfiguration (\<lambda>task. exampleModel ''anthropic'' ''claude'' 0)))
                 \<lparr> AiConfiguration.enabled := False \<rparr> \<rparr>"

definition openaiSwitchedOff :: "real Configuration" where
  "openaiSwitchedOff =
     exampleConfiguration
       \<lparr> ai := exampleAi
           \<lparr> providers := (providers exampleAi)
               \<lparr> openai := \<lparr> AiProviderConfiguration.apiKey = ''sk-openai'',
                             AiProviderConfiguration.enabled = Some False \<rparr> \<rparr> \<rparr> \<rparr>"

definition exampleEnvironment :: environment where
  \<comment> \<open>every required variable, and \<^verbatim>\<open>AI_ENABLED=TRUE\<close>\<close>
  "exampleEnvironment =
     map_of
       [(''SERVER_NAME'', ''Colanode''), (''POSTGRES_URL'', ''postgres://db''),
        (''REDIS_URL'', ''redis://cache''),
        (''S3_AVATARS_ENDPOINT'', ''http://minio:9000''), (''S3_AVATARS_ACCESS_KEY'', ''minioadmin''),
        (''S3_AVATARS_SECRET_KEY'', ''secret''), (''S3_AVATARS_BUCKET_NAME'', ''avatars''),
        (''S3_AVATARS_REGION'', ''us-east-1''),
        (''S3_FILES_ENDPOINT'', ''http://minio:9000''), (''S3_FILES_ACCESS_KEY'', ''minioadmin''),
        (''S3_FILES_SECRET_KEY'', ''secret''), (''S3_FILES_BUCKET_NAME'', ''files''),
        (''S3_FILES_REGION'', ''us-east-1''),
        (''SMTP_EMAIL_FROM'', ''noreply@example.com''), (''SMTP_EMAIL_FROM_NAME'', ''Colanode''),
        (''AI_ENABLED'', ''TRUE''), (''OPENAI_ENABLED'', ''true'')]"

definition exampleDocument :: Document where
  "exampleDocument =
     \<lparr> pageContent = lit ''Refunds within 30 days'', metadata_type = lit ''page'',
       metadata_id = lit ''doc-1'' \<rparr>"

definition exampleState :: AssistantChainState where
  "exampleState =
     \<lparr> mode = ''retrieve'', contextDocuments = [exampleDocument],
       rewrittenQuery = \<lparr> semanticQuery = lit ''refund policy'', keywordQuery = lit ''money back'' \<rparr> \<rparr>"

definition exampleEntry :: "int \<Rightarrow> real RankingEntry" where
  "exampleEntry i =
     \<lparr> index = i, score = 1, type = lit ''page'', RankingEntry.sourceId = lit ''doc-9'' \<rparr>"

definition strayRanking :: "real Invocation \<Rightarrow> error + real RerankedDocuments" where
  \<comment> \<open>a provider that ranks index 7 twice and index 0 once, whatever it is asked\<close>
  "strayRanking call = Inr \<lparr> rankings = [exampleEntry 7, exampleEntry 7, exampleEntry 0] \<rparr>"

definition examplePromptArgs :: PromptArgs where
  \<comment> \<open>the context of one document, \<^verbatim>\<open>doc-1\<close>, formatted as the reranker lists it\<close>
  "examplePromptArgs =
     \<lparr> currentTimestamp = lit ''2025-01-01T00:00:00Z'', workspaceName = lit ''Acme'',
       userName = lit ''Ann'', userEmail = lit ''ann@example.com'',
       formattedChatHistory = [], formattedMessages = [],
       formattedDocuments = formattedContext [exampleDocument],
       question = lit ''What is our refund policy?'' \<rparr>"

definition strayAnswer :: CitedAnswer where
  "strayAnswer =
     \<lparr> answer = lit ''Refunds are possible.'',
       citations = [\<lparr> Citation.sourceId = lit ''doc-9'', quote = lit ''always'' \<rparr>] \<rparr>"

definition neverSatisfied :: "nat \<Rightarrow> real Invocation \<Rightarrow> error + EvaluateAndRefineResult" where
  \<comment> \<open>a planner that always asks for another pass\<close>
  "neverSatisfied k call =
     Inr \<lparr> sufficient = False,
           refinedQuery = Some \<lparr> semanticQuery = lit ''again'', keywordQuery = lit ''again'' \<rparr>,
           identifiedGaps = [] \<rparr>"

definition givesUpAt :: "nat \<Rightarrow> nat \<Rightarrow> real Invocation \<Rightarrow> error + EvaluateAndRefineResult" where
  \<comment> \<open>as \<open>neverSatisfied\<close>, but the answer of pass \<open>n\<close> carries no refined query\<close>
  "givesUpAt n k call =
     (if k = n then Inr \<lparr> sufficient = False, refinedQuery = None, identifiedGaps = [] \<rparr>
      else neverSatisfied k call)"

definition satisfiedAt :: "nat \<Rightarrow> nat \<Rightarrow> real Invocation \<Rightarrow> error + EvaluateAndRefineResult" where
  \<comment> \<open>as \<open>neverSatisfied\<close>, but the answer of pass \<open>n\<close> reports \<^verbatim>\<open>sufficient=true\<close>\<close>
  "satisfiedAt n k call =
     (if k = n then Inr \<lparr> sufficient = True, refinedQuery = None, identifiedGaps = [] \<rparr>
      else neverSatisfied k call)"

definition exampleCollaborators ::
  "(nat \<Rightarrow> real Invocation \<Rightarrow> error + EvaluateAndRefineResult) \<Rightarrow> real Collaborators" where
  \<comment> \<open>the settings are \<open>exampleConfiguration\<close>, whose \<^verbatim>\<open>maxIterations\<close> is 3\<close>
  "exampleCollaborators planner =
     \<lparr> settings = exampleConfiguration,
       searchIndex = (\<lambda>k q. Inr [exampleDocument]),
       rankingModel = (\<lambda>k call. Inr \<lparr> rankings = [exampleEntry 0] \<rparr>),
       planningModel = planner,
       formatSources = (\<lambda>rs. []),
       userQuestion = lit ''What is our refund policy?'',
       history = [] \<rparr>"

definition otherWeights :: "real Configuration" where
  \<comment> \<open>\<open>exampleConfiguration\<close> with the hybrid weights 0.1 and 0.9 instead of 0.7 and 0.3\<close>
  "otherWeights =
     exampleConfiguration
       \<lparr> ai := exampleAi
           \<lparr> retrieval := \<lparr> hybridSearch = \<lparr> semanticSearchWeight = 1 / 10,
                                              keywordSearchWeight = 9 / 10, maxResults = 2 \<rparr> \<rparr> \<rparr> \<rparr>"

definition otherKeywords :: AssistantChainState where
  \<comment> \<open>\<open>exampleState\<close> with another keyword form of the query\<close>
  "otherKeywords =
     exampleState
       \<lparr> rewrittenQuery := \<lparr> semanticQuery = lit ''refund policy'', keywordQuery = lit ''cashback'' \<rparr> \<rparr>"

definition exampleNumber :: "string \<Rightarrow> real" where
  \<comment> \<open>\<^verbatim>\<open>parseInt\<close> and \<^verbatim>\<open>parseFloat\<close> on the default literals of the configuration\<close>
  "exampleNumber s =
     (case map_of [(''600'', 600), (''0'', 0), (''587'', 587), (''5000'', 5000), (''10000'', 10000),
                   (''0.3'', 3 / 10), (''0.1'', 1 / 10), (''0.2'', 2 / 10), (''0.5'', 5 / 10),
                   (''0.0'', 0), (''2000'', 2000), (''50'', 50), (''1000'', 1000), (''200'', 200),
                   (''0.7'', 7 / 10), (''20'', 20), (''3'', 3)] s of
        Some x \<Rightarrow> x | None \<Rightarrow> 0)"

definition exampleBigInt :: "string \<Rightarrow> int option" where
  \<comment> \<open>\<^verbatim>\<open>BigInt\<close> on the two default literals of the configuration\<close>
  "exampleBigInt s = map_of [(''10737418240'', 10737418240), (''104857600'', 104857600)] s"

definition paddedSentinel :: "real Invocation \<Rightarrow> error + jsstring" where
  \<comment> \<open>a provider that answers the sentinel in mixed case between blanks and a line feed\<close>
  "paddedSentinel call = Inr (lit ''  No_Context '' @ [0x000A])"

definition exampleQuery :: RewrittenQuery where
  "exampleQuery = \<lparr> semanticQuery = lit ''refund policy'', keywordQuery = lit ''money back'' \<rparr>"

declare deepSearchController.simps [code]

lemmas example_defs = exampleConfiguration_def exampleAi_def exampleModel_def

section \<open>Model resolution: the claims\<close>

text \<open>
  C4. When \<^verbatim>\<open>configuration.ai.enabled\<close> is false, \<^verbatim>\<open>getChatModel\<close> fails for every task
  and both values of the reasoning flag with the error \<^verbatim>\<open>AI is disabled.\<close> The statement
  holds for every configuration with the flag off, whatever its providers and bindings
  are: the providers are not consulted. \<open>getChatModel\<close> has no access to the provider's
  answers at all, so it makes no network attempt in any case.
\<close>

theorem getChatModel_ai_disabled:
  "\<not> AiConfiguration.enabled (ai cfg) \<Longrightarrow>
     getChatModel cfg task reasoningModel = Inl (Error ''AI is disabled.'')"
  by (simp add: getChatModel_def)

text \<open>
  The witness binds every task to a provider tag that is not in \<^verbatim>\<open>providers\<close>; with AI
  on, reading \<^verbatim>\<open>enabled\<close> of that provider would raise a TypeError. With AI off the
  result is the AI-disabled error.
\<close>

theorem getChatModel_ai_disabled_witness:
  "\<not> AiConfiguration.enabled (ai aiSwitchedOff)
   \<and> getChatModel aiSwitchedOff rerank True = Inl (Error ''AI is disabled.'')"
proof -
  have off: "\<not> AiConfiguration.enabled (ai aiSwitchedOff)"
    by (simp add: aiSwitchedOff_def withModels_def)
  show ?thesis using off getChatModel_ai_disabled [OF off, of rerank True] by simp
qed

text \<open>
  C5. When AI is enabled and the provider that the task's binding resolves to is not
  enabled (\<^verbatim>\<open>enabled\<close> false, or absent), \<^verbatim>\<open>getChatModel\<close> fails with
  \<^verbatim>\<open><provider> provider is disabled.\<close> for every task and both values of the reasoning
  flag; no model client is built.
\<close>

theorem getChatModel_provider_disabled:
  assumes "AiConfiguration.enabled (ai cfg)"
    and "providerProperty (providers (ai cfg)) (AiModelConfiguration.provider (models (ai cfg) task))
           = Own providerConfig"
    and "AiProviderConfiguration.enabled providerConfig \<noteq> Some True"
  shows "getChatModel cfg task reasoningModel =
           Inl (Error (AiModelConfiguration.provider (models (ai cfg) task) @ '' provider is disabled.''))"
  using assms by (simp add: getChatModel_def Let_def)

theorem getChatModel_provider_disabled_witness:
  "AiConfiguration.enabled (ai openaiSwitchedOff)
   \<and> AiProviderConfiguration.enabled (openai (providers (ai openaiSwitchedOff))) = Some False
   \<and> getChatModel openaiSwitchedOff response False = Inl (Error ''openai provider is disabled.'')"
proof -
  have on: "AiConfiguration.enabled (ai openaiSwitchedOff)"
    by (simp add: openaiSwitchedOff_def exampleAi_def)
  have p: "providerProperty (providers (ai openaiSwitchedOff))
             (AiModelConfiguration.provider (models (ai openaiSwitchedOff) response))
           = Own (openai (providers (ai openaiSwitchedOff)))"
    by (simp add: openaiSwitchedOff_def exampleAi_def exampleModel_def providerProperty_def)
  have off: "AiProviderConfiguration.enabled (openai (providers (ai openaiSwitchedOff))) = Some False"
    by (simp add: openaiSwitchedOff_def)
  have ne: "AiProviderConfiguration.enabled (openai (providers (ai openaiSwitchedOff))) \<noteq> Some True"
    using off by simp
  have tag: "AiModelConfiguration.provider (models (ai openaiSwitchedOff) response) = ''openai''"
    by (simp add: openaiSwitchedOff_def exampleAi_def exampleModel_def)
  show ?thesis
    using on off getChatModel_provider_disabled [OF on p ne, of False] tag by simp
qed

text \<open>
  An operation whose model resolution fails returns that error and has made no call to
  the provider.
\<close>

lemma no_call_without_model:
  "getChatModel cfg (if AssistantChainState.mode state = ''deep_search'' then deepRerank else rerank)
      (AssistantChainState.mode state = ''deep_search'') = Inl e
     \<Longrightarrow> rerankDocuments cfg llm1 state = (Inl e, [])"
  "getChatModel cfg response False = Inl e \<Longrightarrow> generateFinalAnswer cfg llm2 args = (Inl e, [])"
  "getChatModel cfg intentRecognition False = Inl e
     \<Longrightarrow> assessUserIntent cfg toLowerCase llm3 q h = (Inl e, [])"
  "getChatModel cfg deepPlanner True = Inl e \<Longrightarrow> evaluateAndRefine cfg llm4 a = (Inl e, [])"
  by (simp_all add: rerankDocuments_def generateFinalAnswer_def assessUserIntent_def
        evaluateAndRefine_def Let_def)

text \<open>
  C6, as the code has it. A handle that \<^verbatim>\<open>getChatModel\<close> returns for a task bound to
  \<^verbatim>\<open>openai\<close> omits the temperature when the reasoning flag is set and carries the
  configured temperature when it is not; a handle returned for a task bound to
  \<^verbatim>\<open>google\<close> carries the configured temperature, flag or no flag. A handle is returned
  for these two providers only.
\<close>

theorem getChatModel_reasoning_temperature:
  assumes "getChatModel cfg task reasoningModel = Inr h"
  shows "(AiModelConfiguration.provider (models (ai cfg) task) = ''openai'' \<longrightarrow>
            handleTemperature h
              = (if reasoningModel then None else Some (temperature (models (ai cfg) task))))
     \<and> (AiModelConfiguration.provider (models (ai cfg) task) = ''google'' \<longrightarrow>
            handleTemperature h = Some (temperature (models (ai cfg) task)))
     \<and> (AiModelConfiguration.provider (models (ai cfg) task) = ''openai''
          \<or> AiModelConfiguration.provider (models (ai cfg) task) = ''google'')"
  using assms
  by (auto simp add: getChatModel_def Let_def split: property.splits if_splits)

theorem getChatModel_reasoning_temperature_witness:
  "getChatModel exampleConfiguration deepPlanner True = Inr (ChatOpenAI ''o3'' None ''sk-openai'')
   \<and> handleTemperature (ChatOpenAI ''o3'' (None :: real option) ''sk-openai'') = None
   \<and> getChatModel exampleConfiguration deepRerank False
       = Inr (ChatGoogleGenerativeAI ''gemini-2.5-pro'' (Some (2 / 10)) ''g-key'')
   \<and> handleTemperature (ChatGoogleGenerativeAI ''gemini-2.5-pro'' (Some (2 / 10 :: real)) ''g-key'')
       = Some (temperature (models (ai exampleConfiguration) deepRerank))"
proof -
  have h: "getChatModel exampleConfiguration deepPlanner True = Inr (ChatOpenAI ''o3'' None ''sk-openai'')"
    by (simp add: getChatModel_def providerProperty_def example_defs)
  have tag: "AiModelConfiguration.provider (models (ai exampleConfiguration) deepPlanner) = ''openai''"
    by (simp add: example_defs)
  have g: "getChatModel exampleConfiguration deepRerank False
             = Inr (ChatGoogleGenerativeAI ''gemini-2.5-pro'' (Some (2 / 10)) ''g-key'')"
    by (simp add: getChatModel_def providerProperty_def example_defs)
  have gtag: "AiModelConfiguration.provider (models (ai exampleConfiguration) deepRerank) = ''google''"
    by (simp add: example_defs)
  show ?thesis
    using h g getChatModel_reasoning_temperature [OF h] getChatModel_reasoning_temperature [OF g]
      tag gtag
    by simp
qed

text \<open>
  The claim as stated fails for a task bound to \<^verbatim>\<open>google\<close>: \<^verbatim>\<open>deepRerank\<close>, which
  \<^verbatim>\<open>rerankDocuments\<close> resolves with the reasoning flag set in deep-search mode, yields a
  handle with temperature 0.2.
\<close>

theorem getChatModel_google_reasoning_counterexample:
  "getChatModel exampleConfiguration deepRerank True
     = Inr (ChatGoogleGenerativeAI ''gemini-2.5-pro'' (Some (2 / 10)) ''g-key'')
   \<and> handleTemperature (ChatGoogleGenerativeAI ''gemini-2.5-pro'' (Some (2 / 10 :: real)) ''g-key'') \<noteq> None"
  by (simp add: getChatModel_def providerProperty_def example_defs)

text \<open>
  The branch \<^verbatim>\<open>default: throw new Error(`Unsupported AI provider: ...`)\<close> is never
  taken: a tag other than \<^verbatim>\<open>openai\<close> and \<^verbatim>\<open>google\<close> does not get past the read of
  \<^verbatim>\<open>providerConfig.enabled\<close>.
\<close>

lemma unsupported_provider_branch_unreachable:
  "getChatModel cfg task reasoningModel \<noteq>
     Inl (Error (''Unsupported AI provider: '' @ AiModelConfiguration.provider (models (ai cfg) task)))"
proof -
  let ?tag = "AiModelConfiguration.provider (models (ai cfg) task)"
  have a: "''AI is disabled.'' \<noteq> ''Unsupported AI provider: '' @ ?tag" by simp
  have b: "?tag @ '' provider is disabled.'' \<noteq> ''Unsupported AI provider: '' @ ?tag"
  proof
    assume "?tag @ '' provider is disabled.'' = ''Unsupported AI provider: '' @ ?tag"
    then have "length (?tag @ '' provider is disabled.'') = length (''Unsupported AI provider: '' @ ?tag)"
      by (rule arg_cong)
    then show False by simp
  qed
  show ?thesis using a b
    by (auto simp add: getChatModel_def Let_def providerProperty_def split: property.splits if_splits)
qed

lemma unknown_provider_outcome:
  assumes "AiConfiguration.enabled (ai cfg)"
    and "AiModelConfiguration.provider (models (ai cfg) task) \<noteq> ''openai''"
    and "AiModelConfiguration.provider (models (ai cfg) task) \<noteq> ''google''"
  shows "getChatModel cfg task reasoningModel =
           (if AiModelConfiguration.provider (models (ai cfg) task) \<in> set objectPrototypeKeys
            then Inl (Error (AiModelConfiguration.provider (models (ai cfg) task) @ '' provider is disabled.''))
            else Inl TypeError)"
  using assms by (simp add: getChatModel_def Let_def providerProperty_def)

text \<open>
  C7. With AI enabled and the task \<^verbatim>\<open>queryRewrite\<close> bound to the tag \<^verbatim>\<open>anthropic\<close>
  (\<^verbatim>\<open>QUERY_REWRITE_PROVIDER=anthropic\<close>), \<^verbatim>\<open>getChatModel\<close> raises a TypeError, not the
  unsupported-provider error the claim states.
\<close>

theorem getChatModel_unknown_provider:
  "getChatModel (withModels exampleConfiguration (\<lambda>task. exampleModel ''anthropic'' ''claude'' 0))
       queryRewrite False = Inl TypeError
   \<and> getChatModel (withModels exampleConfiguration (\<lambda>task. exampleModel ''anthropic'' ''claude'' 0))
       queryRewrite False \<noteq> Inl (Error ''Unsupported AI provider: anthropic'')"
  by (simp add: getChatModel_def providerProperty_def objectPrototypeKeys_def withModels_def example_defs)

section \<open>The intent router\<close>

text \<open>
  \<open>trim\<close> removes the whitespace around a string, and only that: a string is its trimmed
  form between two runs of whitespace, whitespace added around a string does not change
  the trimmed form, and a string that neither begins nor ends with whitespace is its own
  trimmed form.
\<close>

lemma dropWhile_all: "\<forall>c \<in> set a. P c \<Longrightarrow> dropWhile P (a @ s) = dropWhile P s"
  by (induction a) auto

lemma trim_surrounding_whitespace:
  assumes "\<forall>c \<in> set a. isWhiteSpace c" and "\<forall>c \<in> set b. isWhiteSpace c"
  shows "trim (a @ s @ b) = trim s"
proof -
  have 1: "dropWhile isWhiteSpace (a @ s @ b) = dropWhile isWhiteSpace (s @ b)"
    using assms(1) by (rule dropWhile_all)
  have 2: "rev (dropWhile isWhiteSpace (rev (dropWhile isWhiteSpace (s @ b))))
         = rev (dropWhile isWhiteSpace (rev (dropWhile isWhiteSpace s)))"
  proof (cases "\<forall>c \<in> set s. isWhiteSpace c")
    case True
    then have "\<forall>c \<in> set (s @ b). isWhiteSpace c" using assms(2) by auto
    then have e1: "dropWhile isWhiteSpace (s @ b) = []" by (metis dropWhile_eq_Nil_conv)
    have e2: "dropWhile isWhiteSpace s = []" using True by (metis dropWhile_eq_Nil_conv)
    show ?thesis unfolding e1 e2 by (rule refl)
  next
    case False
    then have d: "dropWhile isWhiteSpace (s @ b) = dropWhile isWhiteSpace s @ b"
      by (auto simp add: dropWhile_append1)
    have "\<forall>c \<in> set (rev b). isWhiteSpace c" using assms(2) by simp
    then have "dropWhile isWhiteSpace (rev b @ rev (dropWhile isWhiteSpace s))
             = dropWhile isWhiteSpace (rev (dropWhile isWhiteSpace s))"
      by (rule dropWhile_all)
    then show ?thesis using d by simp
  qed
  show ?thesis unfolding trim_def using 1 2 by simp
qed

lemma trim_decomposition:
  "\<exists>a b. s = a @ trim s @ b \<and> (\<forall>c \<in> set a. isWhiteSpace c) \<and> (\<forall>c \<in> set b. isWhiteSpace c)"
proof -
  let ?d = "dropWhile isWhiteSpace s"
  let ?a = "takeWhile isWhiteSpace s"
  let ?b = "rev (takeWhile isWhiteSpace (rev ?d))"
  have "rev (takeWhile isWhiteSpace (rev ?d) @ dropWhile isWhiteSpace (rev ?d)) = rev (rev ?d)"
    by (simp only: takeWhile_dropWhile_id)
  then have "rev (dropWhile isWhiteSpace (rev ?d)) @ ?b = ?d"
    by (simp only: rev_append rev_rev_ident)
  then have "trim s @ ?b = ?d" by (simp only: trim_def)
  moreover have "?a @ ?d = s" by (rule takeWhile_dropWhile_id)
  ultimately have "s = ?a @ trim s @ ?b" by simp
  moreover have "\<forall>c \<in> set ?a. isWhiteSpace c" by (auto dest: set_takeWhileD)
  moreover have "\<forall>c \<in> set ?b. isWhiteSpace c" by (auto dest: set_takeWhileD)
  ultimately show ?thesis by blast
qed

lemma trim_without_surrounding_whitespace:
  assumes "s \<noteq> []" and "\<not> isWhiteSpace (hd s)" and "\<not> isWhiteSpace (last s)"
  shows "trim s = s"
proof -
  have 1: "dropWhile isWhiteSpace s = s"
    using assms(1,2) by (cases s) simp_all
  have "rev s \<noteq> []" and "\<not> isWhiteSpace (hd (rev s))"
    using assms(1,3) by (simp_all add: hd_rev)
  then have 2: "dropWhile isWhiteSpace (rev s) = rev s"
    by (cases "rev s") simp_all
  show ?thesis by (simp add: trim_def 1 2)
qed

text \<open>
  The strings that the ASCII lower-casing maps to the token \<^verbatim>\<open>no_context\<close> are made of
  ASCII code units, and neither begin nor end with whitespace.
\<close>

lemma whitespace_not_upper_case:
  "isWhiteSpace c \<Longrightarrow> \<not> (0x0041 \<le> c \<and> c \<le> 0x005A)"
proof
  assume w: "isWhiteSpace c" and u: "0x0041 \<le> c \<and> c \<le> 0x005A"
  have small: "c \<le> 0x005A" and big: "0x0041 \<le> c" using u by simp_all
  from w have "c \<in> set [0x0009, 0x000A, 0x000B, 0x000C, 0x000D, 0x0020, 0x00A0, 0x1680,
               0x2028, 0x2029, 0x202F, 0x205F, 0x3000, 0xFEFF] \<or> 0x2000 \<le> c"
    by (auto simp add: isWhiteSpace_def)
  then show False
  proof
    assume "c \<in> set [0x0009, 0x000A, 0x000B, 0x000C, 0x000D, 0x0020, 0x00A0, 0x1680,
               0x2028, 0x2029, 0x202F, 0x205F, 0x3000, 0xFEFF]"
    then show False using small big by auto
  next
    assume "0x2000 \<le> c"
    then have "(0x2000 :: 16 word) \<le> 0x005A" using small by (rule order_trans)
    then show False by simp
  qed
qed

lemma sentinel_variant_ascii:
  assumes "toLowerCaseAscii v = lit ''no_context''"
  shows "\<forall>c \<in> set v. c < 0x0080"
proof
  fix c assume "c \<in> set v"
  then have "(if 0x0041 \<le> c \<and> c \<le> 0x005A then c + 0x0020 else c) \<in> set (toLowerCaseAscii v)"
    by (simp add: toLowerCaseAscii_def)
  then have m: "(if 0x0041 \<le> c \<and> c \<le> 0x005A then c + 0x0020 else c) \<in> set (lit ''no_context'')"
    using assms by simp
  show "c < 0x0080"
  proof (cases "0x0041 \<le> c \<and> c \<le> 0x005A")
    case True
    then have "c \<le> 0x005A" by simp
    moreover have "(0x005A :: 16 word) < 0x0080" by simp
    ultimately show ?thesis by (rule le_less_trans)
  next
    case False
    then have "(if 0x0041 \<le> c \<and> c \<le> 0x005A then c + 0x0020 else c) = c" by auto
    then have "c \<in> set (lit ''no_context'')" using m by (simp only:)
    then show ?thesis by (auto simp add: lit_def)
  qed
qed

lemma sentinel_variant_ends:
  assumes "toLowerCaseAscii v = lit ''no_context''"
  shows "v \<noteq> []" and "\<not> isWhiteSpace (hd v)" and "\<not> isWhiteSpace (last v)"
proof -
  let ?g = "\<lambda>c :: 16 word. if 0x0041 \<le> c \<and> c \<le> 0x005A then c + 0x0020 else c"
  have m: "map ?g v = lit ''no_context''" using assms by (simp add: toLowerCaseAscii_def)
  show ne: "v \<noteq> []" using m by (auto simp add: lit_def)
  have "hd (map ?g v) = 0x006E" and "last (map ?g v) = 0x0074"
    by (simp_all add: m lit_def)
  then have h: "?g (hd v) = 0x006E" and l: "?g (last v) = 0x0074"
    using ne by (simp_all add: hd_map last_map)
  show "\<not> isWhiteSpace (hd v)"
  proof
    assume w: "isWhiteSpace (hd v)"
    then have "?g (hd v) = hd v" using whitespace_not_upper_case by simp
    then have "isWhiteSpace 0x006E" using h w by simp
    then show False by (simp add: isWhiteSpace_def)
  qed
  show "\<not> isWhiteSpace (last v)"
  proof
    assume w: "isWhiteSpace (last v)"
    then have "?g (last v) = last v" using whitespace_not_upper_case by simp
    then have "isWhiteSpace 0x0074" using l w by simp
    then show False by (simp add: isWhiteSpace_def)
  qed
qed

text \<open>
  The builtin \<^verbatim>\<open>toLowerCase\<close> enters through two of its properties: on a string of ASCII
  code units it is the ASCII lower-casing, and only strings of ASCII code units are
  lower-cased to the token \<^verbatim>\<open>no_context\<close> (the two code points outside ASCII whose
  lower-casing contains an ASCII letter give \<^verbatim>\<open>k\<close> and \<^verbatim>\<open>i\<close>, which the token lacks).
  Under them, the normalized response is the token exactly when the response is a
  spelling of the token in upper- and lower-case ASCII letters between two runs of
  whitespace.
\<close>

lemma normalized_is_sentinel:
  assumes ascii: "\<forall>s. (\<forall>c \<in> set s. c < 0x0080) \<longrightarrow> toLowerCase s = toLowerCaseAscii s"
    and only_ascii: "\<forall>s. toLowerCase s = lit ''no_context'' \<longrightarrow> (\<forall>c \<in> set s. c < 0x0080)"
  shows "toLowerCase (trim r) = lit ''no_context'' \<longleftrightarrow>
           (\<exists>a v b. r = a @ v @ b \<and> (\<forall>c \<in> set a. isWhiteSpace c) \<and> (\<forall>c \<in> set b. isWhiteSpace c)
              \<and> toLowerCaseAscii v = lit ''no_context'')"
proof
  assume n: "toLowerCase (trim r) = lit ''no_context''"
  then have "\<forall>c \<in> set (trim r). c < 0x0080" using only_ascii by blast
  then have "toLowerCase (trim r) = toLowerCaseAscii (trim r)" using ascii by blast
  then have "toLowerCaseAscii (trim r) = lit ''no_context''" using n by simp
  moreover obtain a b where "r = a @ trim r @ b" "\<forall>c \<in> set a. isWhiteSpace c"
      "\<forall>c \<in> set b. isWhiteSpace c"
    using trim_decomposition by blast
  ultimately show "\<exists>a v b. r = a @ v @ b \<and> (\<forall>c \<in> set a. isWhiteSpace c)
      \<and> (\<forall>c \<in> set b. isWhiteSpace c) \<and> toLowerCaseAscii v = lit ''no_context''"
    by blast
next
  assume "\<exists>a v b. r = a @ v @ b \<and> (\<forall>c \<in> set a. isWhiteSpace c) \<and> (\<forall>c \<in> set b. isWhiteSpace c)
      \<and> toLowerCaseAscii v = lit ''no_context''"
  then obtain a v b where r: "r = a @ v @ b" and wa: "\<forall>c \<in> set a. isWhiteSpace c"
      and wb: "\<forall>c \<in> set b. isWhiteSpace c" and v: "toLowerCaseAscii v = lit ''no_context''"
    by blast
  have "trim r = trim v" unfolding r using wa wb by (rule trim_surrounding_whitespace)
  also have "trim v = v"
    using sentinel_variant_ends [OF v] by (rule trim_without_surrounding_whitespace)
  finally have t: "trim r = v" .
  have "\<forall>c \<in> set v. c < 0x0080" using v by (rule sentinel_variant_ascii)
  then have "toLowerCase v = toLowerCaseAscii v" using ascii by blast
  then show "toLowerCase (trim r) = lit ''no_context''" using t v by simp
qed

text \<open>
  C8. Given the model's free-text response \<open>r\<close>, \<^verbatim>\<open>assessUserIntent\<close> returns
  \<^verbatim>\<open>no_context\<close> exactly when \<open>r\<close>, trimmed of surrounding whitespace and then
  lower-cased, equals the token \<^verbatim>\<open>no_context\<close>, and \<^verbatim>\<open>retrieve\<close> for every other
  response. With the two properties of the builtin \<^verbatim>\<open>toLowerCase\<close> above, that is:
  \<^verbatim>\<open>no_context\<close> exactly for the responses that spell the token in ASCII letters of
  either case between two runs of whitespace, and \<^verbatim>\<open>retrieve\<close> for every other response.
\<close>

theorem assessUserIntent_classifies:
  assumes "getChatModel cfg intentRecognition False = Inr m"
    and "llm \<lparr> prompt = intentRecognitionPrompt, model = m, outputAs = StringOutputParser,
               inputs = [(''question'', q), (''formattedChatHistory'', h)] \<rparr> = Inr r"
    and "\<forall>s. (\<forall>c \<in> set s. c < 0x0080) \<longrightarrow> toLowerCase s = toLowerCaseAscii s"
    and "\<forall>s. toLowerCase s = lit ''no_context'' \<longrightarrow> (\<forall>c \<in> set s. c < 0x0080)"
  shows "fst (assessUserIntent cfg toLowerCase llm q h)
           = Inr (if toLowerCase (trim r) = lit ''no_context'' then no_context else retrieve)
     \<and> fst (assessUserIntent cfg toLowerCase llm q h)
           = Inr (if \<exists>a v b. r = a @ v @ b \<and> (\<forall>c \<in> set a. isWhiteSpace c)
                       \<and> (\<forall>c \<in> set b. isWhiteSpace c)
                       \<and> toLowerCaseAscii v = lit ''no_context''
                  then no_context else retrieve)"
proof -
  have 1: "fst (assessUserIntent cfg toLowerCase llm q h)
           = Inr (if toLowerCase (trim r) = lit ''no_context'' then no_context else retrieve)"
    using assms(1,2) by (simp add: assessUserIntent_def invoke_def)
  show ?thesis
    using 1 normalized_is_sentinel [OF assms(3,4), of r] by simp
qed

lemma toLowerCaseAscii_only_ascii:
  "\<forall>s. toLowerCaseAscii s = lit ''no_context'' \<longrightarrow> (\<forall>c \<in> set s. c < 0x0080)"
  using sentinel_variant_ascii by blast

text \<open>
  The witness: the response \<^verbatim>\<open>No_Context\<close> between two blanks, a blank and a line feed
  is classified \<^verbatim>\<open>no_context\<close>.
\<close>

theorem assessUserIntent_classifies_witness:
  "fst (assessUserIntent exampleConfiguration toLowerCaseAscii paddedSentinel (lit ''hi'') [])
     = Inr no_context"
proof -
  have m: "getChatModel exampleConfiguration intentRecognition False
             = Inr (ChatOpenAI ''gpt-4o-mini'' (Some (3 / 10)) ''sk-openai'')"
    by (simp add: getChatModel_def providerProperty_def example_defs)
  have r: "paddedSentinel
             \<lparr> prompt = intentRecognitionPrompt,
               model = ChatOpenAI ''gpt-4o-mini'' (Some (3 / 10)) ''sk-openai'',
               outputAs = StringOutputParser,
               inputs = [(''question'', lit ''hi''), (''formattedChatHistory'', [])] \<rparr>
           = Inr (lit ''  No_Context '' @ [0x000A])"
    by (simp add: paddedSentinel_def)
  have a: "\<forall>s. (\<forall>c \<in> set s. c < 0x0080) \<longrightarrow> toLowerCaseAscii s = toLowerCaseAscii s"
    by simp
  have n: "toLowerCaseAscii (trim (lit ''  No_Context '' @ [0x000A])) = lit ''no_context''"
    by (simp add: toLowerCaseAscii_def trim_def isWhiteSpace_def lit_def)
  show ?thesis
    using assessUserIntent_classifies
            [where llm = paddedSentinel and toLowerCase = toLowerCaseAscii,
             OF m r a toLowerCaseAscii_only_ascii] n
    by simp
qed

text \<open>
  Responses classified \<^verbatim>\<open>retrieve\<close>: another word, the token with a blank in the place of
  the underscore, the token followed by a full stop, and the empty response.
\<close>

lemma assessUserIntent_retrieve_examples:
  "fst (assessUserIntent exampleConfiguration toLowerCaseAscii (\<lambda>call. Inr (lit ''retrieve''))
          (lit ''hi'') []) = Inr retrieve"
  "fst (assessUserIntent exampleConfiguration toLowerCaseAscii (\<lambda>call. Inr (lit ''no context''))
          (lit ''hi'') []) = Inr retrieve"
  "fst (assessUserIntent exampleConfiguration toLowerCaseAscii (\<lambda>call. Inr (lit ''no_context.''))
          (lit ''hi'') []) = Inr retrieve"
  "fst (assessUserIntent exampleConfiguration toLowerCaseAscii (\<lambda>call. Inr [])
          (lit ''hi'') []) = Inr retrieve"
  by (simp_all add: assessUserIntent_def invoke_def getChatModel_def providerProperty_def
        example_defs toLowerCaseAscii_def trim_def isWhiteSpace_def lit_def)

section \<open>The reranker\<close>

text \<open>
  The listing of two candidates: numbered from 0, each line ended by a line feed, the
  lines joined by another.
\<close>

lemma formattedContext_two:
  "formattedContext [exampleDocument, exampleDocument]
     = lit ''0. Type: page, Content: Refunds within 30 days, ID: doc-1'' @ [0x000A, 0x000A]
       @ lit ''1. Type: page, Content: Refunds within 30 days, ID: doc-1'' @ [0x000A]"
  by (simp add: formattedContext_def exampleDocument_def enumerate_eq_zip lit_def upt_rec)

text \<open>
  C1, as the code has it. Whenever \<^verbatim>\<open>rerankDocuments\<close> returns a ranking, it made exactly
  one call to the provider, and what it returns is the \<^verbatim>\<open>rankings\<close> list of the answer to
  that call, unchanged: the same entries in the same order. It checks no index against
  the candidates, removes no duplicate and does not read \<^verbatim>\<open>maxResults\<close>.
\<close>

theorem rerankDocuments_returns_model_rankings:
  "fst (rerankDocuments cfg llm state) = Inr r \<Longrightarrow>
     \<exists>call res. snd (rerankDocuments cfg llm state) = [call] \<and> llm call = Inr res
        \<and> r = rankings res"
  by (cases "AssistantChainState.mode state = ''deep_search''")
     (auto simp add: rerankDocuments_def invoke_def Let_def split: sum.splits)

theorem rerankDocuments_returns_model_rankings_witness:
  "\<exists>call res. snd (rerankDocuments exampleConfiguration strayRanking exampleState) = [call]
      \<and> strayRanking call = Inr res
      \<and> [exampleEntry 7, exampleEntry 7, exampleEntry 0] = rankings res"
proof -
  have h: "fst (rerankDocuments exampleConfiguration strayRanking exampleState)
             = Inr [exampleEntry 7, exampleEntry 7, exampleEntry 0]"
    by (simp add: rerankDocuments_def getChatModel_def providerProperty_def invoke_def Let_def
          example_defs exampleState_def strayRanking_def)
  show ?thesis using rerankDocuments_returns_model_rankings [OF h] .
qed

text \<open>
  The claim as stated fails: one candidate is supplied and \<^verbatim>\<open>maxResults\<close> is 2; the
  provider ranks index 7 twice and index 0 once, and all three entries are returned.
\<close>

theorem rerankDocuments_unfiltered_counterexample:
  "fst (rerankDocuments exampleConfiguration strayRanking exampleState)
     = Inr [exampleEntry 7, exampleEntry 7, exampleEntry 0]
   \<and> \<not> index (exampleEntry 7) < int (length (contextDocuments exampleState))
   \<and> \<not> distinct (map index [exampleEntry 7, exampleEntry 7, exampleEntry 0])
   \<and> \<not> real (length [exampleEntry 7, exampleEntry 7, exampleEntry 0])
         \<le> maxResults (hybridSearch (retrieval (ai exampleConfiguration)))"
  by (simp add: rerankDocuments_def getChatModel_def providerProperty_def invoke_def Let_def
        example_defs exampleState_def exampleEntry_def strayRanking_def)

text \<open>
  C9, as the code has it. The input object of the one call \<^verbatim>\<open>rerankDocuments\<close> makes has
  two entries: \<^verbatim>\<open>query\<close>, the semantic form of the rewritten query, and \<^verbatim>\<open>context\<close>, the
  numbered listing of the candidates' type, content and source id. Neither the
  configured retrieval settings (the hybrid weights among them) nor the keyword form of
  the query has any influence on the call or on the result.
\<close>

theorem rerankDocuments_prompt_context:
  "(snd (rerankDocuments cfg llm state) = []
      \<or> map inputs (snd (rerankDocuments cfg llm state))
          = [[(''query'', semanticQuery (rewrittenQuery state)),
              (''context'', formattedContext (contextDocuments state))]])
   \<and> rerankDocuments (cfg\<lparr> ai := (ai cfg)\<lparr> retrieval := w \<rparr> \<rparr>) llm
        (state\<lparr> rewrittenQuery := (rewrittenQuery state)\<lparr> keywordQuery := k \<rparr> \<rparr>)
      = rerankDocuments cfg llm state"
  by (cases "AssistantChainState.mode state = ''deep_search''")
     (auto simp add: rerankDocuments_def getChatModel_def invoke_def Let_def split: sum.splits)

text \<open>
  The claim as stated fails: with the weights 0.7 and 0.3 and the keyword form
  \<^verbatim>\<open>money back\<close> the call carries the semantic query and the listing of the one
  candidate, and nothing else; with the weights 0.1 and 0.9 and the keyword form
  \<^verbatim>\<open>cashback\<close> the call is the same.
\<close>

theorem rerankDocuments_prompt_counterexample:
  "snd (rerankDocuments exampleConfiguration strayRanking exampleState)
     = [\<lparr> prompt = rerankPrompt,
          model = ChatOpenAI ''gpt-4o-mini'' (Some (3 / 10)) ''sk-openai'',
          outputAs = rerankedDocumentsSchema,
          inputs = [(''query'', lit ''refund policy''),
                    (''context'',
                     lit ''0. Type: page, Content: Refunds within 30 days, ID: doc-1'' @ [0x000A])] \<rparr>]
   \<and> snd (rerankDocuments otherWeights strayRanking otherKeywords)
       = snd (rerankDocuments exampleConfiguration strayRanking exampleState)
   \<and> hybridSearch (retrieval (ai otherWeights)) \<noteq> hybridSearch (retrieval (ai exampleConfiguration))
   \<and> keywordQuery (rewrittenQuery otherKeywords) \<noteq> keywordQuery (rewrittenQuery exampleState)"
  by (simp add: rerankDocuments_def getChatModel_def providerProperty_def invoke_def Let_def
        example_defs exampleState_def exampleDocument_def strayRanking_def otherWeights_def
        otherKeywords_def formattedContext_def enumerate_eq_zip lit_def)

section \<open>The answer synthesizer\<close>

text \<open>
  C2, as the code has it. Whenever \<^verbatim>\<open>generateFinalAnswer\<close> returns an answer, it made
  exactly one call to the provider, with the prompt arguments as its inputs, and what it
  returns is the answer to that call, unchanged: every citation the model gave is
  returned, whatever its \<^verbatim>\<open>sourceId\<close>.
\<close>

theorem generateFinalAnswer_returns_model_answer:
  "fst (generateFinalAnswer cfg llm args) = Inr a \<Longrightarrow>
     \<exists>call. snd (generateFinalAnswer cfg llm args) = [call] \<and> inputs call = promptInputs args
        \<and> llm call = Inr a"
  by (auto simp add: generateFinalAnswer_def invoke_def split: sum.splits)

theorem generateFinalAnswer_returns_model_answer_witness:
  "\<exists>call. snd (generateFinalAnswer exampleConfiguration (\<lambda>call. Inr strayAnswer) examplePromptArgs) = [call]
      \<and> inputs call = promptInputs examplePromptArgs"
proof -
  have h: "fst (generateFinalAnswer exampleConfiguration (\<lambda>call. Inr strayAnswer) examplePromptArgs)
             = Inr strayAnswer"
    by (simp add: generateFinalAnswer_def getChatModel_def providerProperty_def invoke_def example_defs)
  show ?thesis using generateFinalAnswer_returns_model_answer [OF h] by blast
qed

text \<open>
  The claim as stated fails: the context holds the one document \<^verbatim>\<open>doc-1\<close>, the model
  cites \<^verbatim>\<open>doc-9\<close>, and the citation is returned.
\<close>

theorem generateFinalAnswer_stray_citation_counterexample:
  "fst (generateFinalAnswer exampleConfiguration (\<lambda>call. Inr strayAnswer) examplePromptArgs)
     = Inr strayAnswer
   \<and> formattedDocuments examplePromptArgs = formattedContext [exampleDocument]
   \<and> \<not> (\<forall>c \<in> set (citations strayAnswer).
           Citation.sourceId c \<in> set (map metadata_id [exampleDocument]))"
  by (simp add: generateFinalAnswer_def getChatModel_def providerProperty_def invoke_def
        example_defs exampleDocument_def examplePromptArgs_def strayAnswer_def lit_def)

section \<open>The AI flag and the environment\<close>

lemma configuration_ai:
  "configuration parseInt parseFloat BigInt process_env = Inr cfg \<Longrightarrow>
     ai cfg = aiConfiguration parseInt parseFloat process_env"
  by (auto simp add: configuration_def bindE_def split: sum.splits)

lemma example_configuration_exists:
  "\<exists>cfg. configuration exampleNumber exampleNumber exampleBigInt exampleEnvironment = Inr cfg"
  by (simp add: configuration_def bindE_def s3Env_def getRequiredEnv_def getOptionalEnv_def
        orElse_def bigIntE_def exampleBigInt_def exampleEnvironment_def)

text \<open>
  C10. In a configuration built from the environment, \<^verbatim>\<open>ai.enabled\<close> is true exactly
  when \<^verbatim>\<open>AI_ENABLED\<close> is the string \<^verbatim>\<open>true\<close>; for any other value, and when the variable
  is not set, it is false and \<^verbatim>\<open>getChatModel\<close> fails with \<^verbatim>\<open>AI is disabled.\<close> for every
  task and both values of the reasoning flag.
\<close>

theorem configuration_ai_enabled_flag:
  assumes "configuration parseInt parseFloat BigInt process_env = Inr cfg"
  shows "(AiConfiguration.enabled (ai cfg) \<longleftrightarrow> process_env ''AI_ENABLED'' = Some ''true'')
     \<and> (process_env ''AI_ENABLED'' \<noteq> Some ''true'' \<longrightarrow>
          (\<forall>task reasoningModel.
             getChatModel cfg task reasoningModel = Inl (Error ''AI is disabled.'')))"
proof -
  have "ai cfg = aiConfiguration parseInt parseFloat process_env"
    using assms by (rule configuration_ai)
  then have "AiConfiguration.enabled (ai cfg) \<longleftrightarrow> process_env ''AI_ENABLED'' = Some ''true''"
    by (simp add: aiConfiguration_def getOptionalEnv_def)
  then show ?thesis by (simp add: getChatModel_def)
qed

theorem configuration_ai_enabled_flag_witness:
  "\<exists>cfg. configuration exampleNumber exampleNumber exampleBigInt exampleEnvironment = Inr cfg
     \<and> exampleEnvironment ''AI_ENABLED'' = Some ''TRUE''
     \<and> \<not> AiConfiguration.enabled (ai cfg)
     \<and> getChatModel cfg queryRewrite False = Inl (Error ''AI is disabled.'')"
proof -
  obtain cfg where c: "configuration exampleNumber exampleNumber exampleBigInt exampleEnvironment = Inr cfg"
    using example_configuration_exists by blast
  have v: "exampleEnvironment ''AI_ENABLED'' = Some ''TRUE''"
    by (simp add: exampleEnvironment_def)
  show ?thesis using configuration_ai_enabled_flag [OF c] c v by auto
qed

section \<open>The deep-search controller: termination\<close>











lemma example_collaborators:
  "settings (exampleCollaborators planner) = exampleConfiguration"
  "searchIndex (exampleCollaborators planner) = (\<lambda>k q. Inr [exampleDocument])"
  "rankingModel (exampleCollaborators planner) = (\<lambda>k call. Inr \<lparr> rankings = [exampleEntry 0] \<rparr>)"
  "planningModel (exampleCollaborators planner) = planner"
  "formatSources (exampleCollaborators planner) = (\<lambda>rs. [])"
  "userQuestion (exampleCollaborators planner) = lit ''What is our refund policy?''"
  "history (exampleCollaborators planner) = []"
  by (simp_all add: exampleCollaborators_def)


text \<open>
  Three runs under the configured limit 3. A planner that always asks for another pass
  gets three passes: the limit is attained. A planner whose second answer carries no
  refined query gets two. The run of section 8, with \<^verbatim>\<open>sufficient=true\<close> on the third
  evaluation, makes three passes.
\<close>

lemma deepSearchController_adversarial_example:
  "map_option (\<lambda>(e, s). (e, phase s, passes s, iteration s, length (evaluations s)))
     (deepSearchController (exampleCollaborators neverSatisfied) (initialRun exampleQuery))
     = Some (None, DONE, 3, 3, 3)"
  by (simp add: deepSearchController.simps step_def initialRun_def retrievePass_def evaluatePass_def
        refinePass_def reachedLimit_def example_collaborators neverSatisfied_def
        rerankDocuments_def evaluateAndRefine_def invoke_def getChatModel_def providerProperty_def
        Let_def example_defs)

lemma deepSearchController_no_refinement_example:
  "map_option (\<lambda>(e, s). (e, phase s, passes s, map refinedQuery (evaluations s)))
     (deepSearchController (exampleCollaborators (givesUpAt 2)) (initialRun exampleQuery))
     = Some (None, DONE, 2,
         [Some \<lparr> semanticQuery = lit ''again'', keywordQuery = lit ''again'' \<rparr>, None])"
  by (simp add: deepSearchController.simps step_def initialRun_def retrievePass_def evaluatePass_def
        refinePass_def reachedLimit_def example_collaborators neverSatisfied_def
        givesUpAt_def rerankDocuments_def evaluateAndRefine_def invoke_def getChatModel_def
        providerProperty_def Let_def example_defs)

lemma deepSearchController_scenario_example:
  "map_option (\<lambda>(e, s). (e, phase s, passes s, map sufficient (evaluations s)))
     (deepSearchController (exampleCollaborators (satisfiedAt 3)) (initialRun exampleQuery))
     = Some (None, DONE, 3, [False, False, True])"
  by (simp add: deepSearchController.simps step_def initialRun_def retrievePass_def evaluatePass_def
        refinePass_def reachedLimit_def example_collaborators neverSatisfied_def
        satisfiedAt_def rerankDocuments_def evaluateAndRefine_def invoke_def getChatModel_def
        providerProperty_def Let_def example_defs)

end
